theory Spec2Isabelle
  imports Complex_Main "HOL-Library.Word"
begin

section \<open>The contract \<open>MyDefiProject\<close>\<close>

text \<open>
  The position engine of the repository is the Solidity contract \<open>MyDefiProject\<close>
  (pragma \<open>^0.7.3\<close>). A Solidity \<open>uint\<close> is an unsigned 256-bit integer and an
  \<open>address\<close> a 160-bit one.
\<close>

type_synonym uint = "256 word"
type_synonym address = "160 word"

text \<open>
  The storage of the contract: the two interface references the constructor sets, and
  the contract's own address (\<open>address(this)\<close>). No function other than the constructor
  assigns to storage.
\<close>

record MyDefiProject =
  comptroller :: address
  priceOracle :: address
  this_address :: address

definition constructor :: "address \<Rightarrow> address \<Rightarrow> address \<Rightarrow> MyDefiProject" where
  "constructor self comptroller' priceOracle' =
     \<lparr>comptroller = comptroller', priceOracle = priceOracle', this_address = self\<rparr>"

subsection \<open>The contracts it calls\<close>

text \<open>
  Every call the contract makes is a high-level call through an interface. Solidity 0.7
  first tests that the address called holds code and reverts, without calling, when it
  holds none (\<open>NoCode\<close>); a call that is made and fails, because the callee reverts
  or runs out of gas or because what it returns does not decode, reverts the caller with
  the data \<open>d\<close> of that failure (\<open>Fails d\<close>); otherwise the call returns a value
  (\<open>Returns v\<close>).
\<close>

datatype 'a reply = Returns 'a | Fails string | NoCode

text \<open>
  \<open>CTokenInterface\<close>, \<open>ComptrollerInterface\<close>, \<open>PriceOracleInterface\<close> and \<open>IERC20\<close>
  are imported interfaces: how a call is answered, and how it changes the state of the
  chain outside the contract, is a parameter of the model. \<open>'w\<close> is that outside state.
  Each field takes the state, the address of the contract called, the caller where the
  call depends on it, and the arguments. The \<open>bool\<close> that \<open>approve\<close> returns is dropped,
  as the contract drops it.
\<close>

record 'w chain =
  ctoken_underlying :: "'w \<Rightarrow> address \<Rightarrow> address reply"
  erc20_approve :: "'w \<Rightarrow> address \<Rightarrow> address \<Rightarrow> address \<Rightarrow> uint \<Rightarrow> 'w reply"
  ctoken_mint :: "'w \<Rightarrow> address \<Rightarrow> address \<Rightarrow> uint \<Rightarrow> (uint \<times> 'w) reply"
  ctoken_redeem :: "'w \<Rightarrow> address \<Rightarrow> address \<Rightarrow> uint \<Rightarrow> (uint \<times> 'w) reply"
  ctoken_borrow :: "'w \<Rightarrow> address \<Rightarrow> address \<Rightarrow> uint \<Rightarrow> (uint \<times> 'w) reply"
  ctoken_repayBorrow :: "'w \<Rightarrow> address \<Rightarrow> address \<Rightarrow> uint \<Rightarrow> (uint \<times> 'w) reply"
  comptroller_enterMarkets ::
    "'w \<Rightarrow> address \<Rightarrow> address \<Rightarrow> address list \<Rightarrow> (uint list \<times> 'w) reply"
  comptroller_getAccountLiquidity :: "'w \<Rightarrow> address \<Rightarrow> address \<Rightarrow> (uint \<times> uint \<times> uint) reply"
  oracle_getUnderlyingPrice :: "'w \<Rightarrow> address \<Rightarrow> address \<Rightarrow> uint reply"

text \<open>The external calls a function makes, in the order it makes them.\<close>

datatype call =
    Underlying address
  | Approve address address uint
  | Mint address uint
  | Redeem address uint
  | EnterMarkets address "address list"
  | Borrow address uint
  | RepayBorrow address uint
  | GetAccountLiquidity address address
  | GetUnderlyingPrice address address

text \<open>
  A call of the market that changes its state, as opposed to a read
  (\<open>underlying\<close>, \<open>getAccountLiquidity\<close>, \<open>getUnderlyingPrice\<close>) and to the token approval.
\<close>

fun mutating :: "call \<Rightarrow> bool" where
  "mutating (Mint _ _) = True"
| "mutating (Redeem _ _) = True"
| "mutating (EnterMarkets _ _) = True"
| "mutating (Borrow _ _) = True"
| "mutating (RepayBorrow _ _) = True"
| "mutating _ = False"

text \<open>
  A failed \<open>require\<close> reverts with its message (\<open>Revert\<close>). A division by zero is
  Solidity's built-in check: in 0.7 it executes the invalid opcode and the call aborts
  without a message. \<open>CallFailed d\<close> and \<open>NoContractCode\<close> are the two ways an external
  call stops the caller.
\<close>

datatype error = Revert string | DivisionByZero | CallFailed string | NoContractCode

definition mint_failed :: string where
  "mint_failed = ''cToken#mint failed. See Compound ErrorReporter.sol for more details''"

definition redeem_failed :: string where
  "redeem_failed = ''cTokenRedeem() failed. See Compound ErrorReporter.sol for more details''"

definition enterMarket_failed :: string where
  "enterMarket_failed =
     ''comptroller#enterMarket() failed. See Compound ErrorReporter.sol for more details''"

definition borrow_failed :: string where
  "borrow_failed = ''cToken#borrow() failed. See Compound ErrorReporter.sol for more details''"

definition repayBorrow_failed :: string where
  "repayBorrow_failed =
     ''cToken#repayBorrow() failed. See Compound ErrorReporter.sol for more details''"

definition getAccountLiquidity_failed :: string where
  "getAccountLiquidity_failed =
     ''comptroller#getAccountLiquidity() failed. See Compound ErrorReporter.sol for more details''"

definition account_underwater :: string where
  "account_underwater = ''account underwater''"

definition no_collateral :: string where
  "no_collateral = ''account does not have collateral''"

subsection \<open>Statements\<close>

text \<open>
  A piece of a function body yields \<open>Inr\<close> its value or \<open>Inl\<close> the error the
  transaction stops with, together with the external calls made on the way.
  \<open>extcall\<close> is an external call, recorded when it is made; \<open>require\<close> is Solidity's;
  \<open>and_then\<close> runs a second piece after a first one that did not stop, and \<open>finish\<close>
  ends with a value.
\<close>

type_synonym 'a run = "(error + 'a) \<times> call list"

definition extcall :: "call \<Rightarrow> 'a reply \<Rightarrow> 'a run" where
  "extcall k r =
     (case r of
        Returns v \<Rightarrow> (Inr v, [k])
      | Fails d \<Rightarrow> (Inl (CallFailed d), [k])
      | NoCode \<Rightarrow> (Inl NoContractCode, []))"

definition require :: "bool \<Rightarrow> string \<Rightarrow> unit run" where
  "require b msg = (if b then (Inr (), []) else (Inl (Revert msg), []))"

definition finish :: "'a \<Rightarrow> 'a run" where
  "finish v = (Inr v, [])"

definition and_then :: "'a run \<Rightarrow> ('a \<Rightarrow> 'b run) \<Rightarrow> 'b run" where
  "and_then m f =
     (case m of
        (Inl e, ks) \<Rightarrow> (Inl e, ks)
      | (Inr v, ks) \<Rightarrow> (fst (f v), ks @ snd (f v)))"

subsection \<open>The functions\<close>

text \<open>
  A state-changing function returns \<open>Inr\<close> the outside state it leaves, or \<open>Inl\<close> the
  error it stops with (the transaction is then rolled back: the outside state stays the
  one it was called in), together with the external calls it made.
\<close>

text \<open>The function \<open>supply\<close> of the source (\<open>supply\<close> is a keyword of Isabelle).\<close>

definition supply_fn :: "'w chain \<Rightarrow> MyDefiProject \<Rightarrow> 'w \<Rightarrow> address \<Rightarrow> uint \<Rightarrow> 'w run" where
  "supply_fn X C w cTokenAddress underlyingAmount =
     and_then (extcall (Underlying cTokenAddress) (ctoken_underlying X w cTokenAddress))
       (\<lambda>underlyingAddress.
     and_then (extcall (Approve underlyingAddress cTokenAddress underlyingAmount)
                 (erc20_approve X w underlyingAddress (this_address C) cTokenAddress
                    underlyingAmount))
       (\<lambda>w1.
     and_then (extcall (Mint cTokenAddress underlyingAmount)
                 (ctoken_mint X w1 cTokenAddress (this_address C) underlyingAmount))
       (\<lambda>(result, w2).
     and_then (require (result = 0) mint_failed)
       (\<lambda>_. finish w2))))"

text \<open>
  The source declares the second parameter of \<open>redeem\<close> without a type; it is passed to
  \<open>cToken.redeem\<close>, which takes a \<open>uint\<close>.
\<close>

definition redeem :: "'w chain \<Rightarrow> MyDefiProject \<Rightarrow> 'w \<Rightarrow> address \<Rightarrow> uint \<Rightarrow> 'w run" where
  "redeem X C w cTokenAddress cTokenAmount =
     and_then (extcall (Redeem cTokenAddress cTokenAmount)
                 (ctoken_redeem X w cTokenAddress (this_address C) cTokenAmount))
       (\<lambda>(result, w1).
     and_then (require (result = 0) redeem_failed)
       (\<lambda>_. finish w1))"

text \<open>
  In \<open>enterMarket\<close> the codes the comptroller returns are stored in \<open>results\<close>, and the
  \<open>require\<close> tests \<open>result\<close>, an identifier the function does not declare. In
  \<open>repayBorrow\<close> the code the market returns is stored in \<open>reault\<close>, and the \<open>require\<close>
  again tests the undeclared \<open>result\<close>. The model takes the value of that identifier as
  the last parameter, \<open>result\<close>; the values the calls return are bound to the names the
  source gives them, which nothing reads.
\<close>

definition enterMarket ::
  "'w chain \<Rightarrow> MyDefiProject \<Rightarrow> 'w \<Rightarrow> address \<Rightarrow> uint \<Rightarrow> 'w run" where
  "enterMarket X C w cTokenAddress result =
     (let markets = [cTokenAddress] in
      and_then (extcall (EnterMarkets (comptroller C) markets)
                  (comptroller_enterMarkets X w (comptroller C) (this_address C) markets))
        (\<lambda>(results, w1).
      and_then (require (result = 0) enterMarket_failed)
        (\<lambda>_. finish w1)))"

definition borrow :: "'w chain \<Rightarrow> MyDefiProject \<Rightarrow> 'w \<Rightarrow> address \<Rightarrow> uint \<Rightarrow> 'w run" where
  "borrow X C w cTokenAddress borrowAmount =
     and_then (extcall (Underlying cTokenAddress) (ctoken_underlying X w cTokenAddress))
       (\<lambda>underlyingAddress.
     and_then (extcall (Borrow cTokenAddress borrowAmount)
                 (ctoken_borrow X w cTokenAddress (this_address C) borrowAmount))
       (\<lambda>(result, w1).
     and_then (require (result = 0) borrow_failed)
       (\<lambda>_. finish w1)))"

definition repayBorrow ::
  "'w chain \<Rightarrow> MyDefiProject \<Rightarrow> 'w \<Rightarrow> address \<Rightarrow> uint \<Rightarrow> uint \<Rightarrow> 'w run" where
  "repayBorrow X C w cTokenAddress underlyingAmount result =
     and_then (extcall (Underlying cTokenAddress) (ctoken_underlying X w cTokenAddress))
       (\<lambda>underlyingAddress.
     and_then (extcall (Approve underlyingAddress cTokenAddress underlyingAmount)
                 (erc20_approve X w underlyingAddress (this_address C) cTokenAddress
                    underlyingAmount))
       (\<lambda>w1.
     and_then (extcall (RepayBorrow cTokenAddress underlyingAmount)
                 (ctoken_repayBorrow X w1 cTokenAddress (this_address C) underlyingAmount))
       (\<lambda>(reault, w2).
     and_then (require (result = 0) repayBorrow_failed)
       (\<lambda>_. finish w2))))"

text \<open>
  \<open>getMaxBorrow\<close> is a \<open>view\<close>: it leaves the outside state as it is and returns a
  number or stops. The oracle is asked only after the three \<open>require\<close>s have passed, and
  the division that follows has no guard of the contract's.
\<close>

definition getMaxBorrow :: "'w chain \<Rightarrow> MyDefiProject \<Rightarrow> 'w \<Rightarrow> address \<Rightarrow> uint run" where
  "getMaxBorrow X C w cTokenAddress =
     and_then (extcall (GetAccountLiquidity (comptroller C) (this_address C))
                 (comptroller_getAccountLiquidity X w (comptroller C) (this_address C)))
       (\<lambda>(result, liquidity, shortfall).
     and_then (require (result = 0) getAccountLiquidity_failed)
       (\<lambda>_.
     and_then (require (shortfall = 0) account_underwater)
       (\<lambda>_.
     and_then (require (0 < liquidity) no_collateral)
       (\<lambda>_.
     and_then (extcall (GetUnderlyingPrice (priceOracle C) cTokenAddress)
                 (oracle_getUnderlyingPrice X w (priceOracle C) cTokenAddress))
       (\<lambda>underlyingPrice.
     if underlyingPrice = 0 then (Inl DivisionByZero, [])
     else finish (liquidity div underlyingPrice))))))"

subsection \<open>Concrete inputs\<close>

text \<open>
  A chain on which every call returns: a market that answers every state-changing call
  with the result code \<open>code\<close> and counts the call in its state, a comptroller that
  reports \<open>snapshot\<close> for every account, and an oracle that quotes \<open>price\<close> for every
  asset. The theorems below are evaluated on it.
\<close>

definition fixed_chain :: "uint \<Rightarrow> uint \<times> uint \<times> uint \<Rightarrow> uint \<Rightarrow> nat chain" where
  "fixed_chain code snapshot price =
     \<lparr>ctoken_underlying = (\<lambda>w c. Returns 0xDA1),
      erc20_approve = (\<lambda>w token owner spender amount. Returns w),
      ctoken_mint = (\<lambda>w c sender amount. Returns (code, Suc w)),
      ctoken_redeem = (\<lambda>w c sender amount. Returns (code, Suc w)),
      ctoken_borrow = (\<lambda>w c sender amount. Returns (code, Suc w)),
      ctoken_repayBorrow = (\<lambda>w c sender amount. Returns (code, Suc w)),
      comptroller_enterMarkets =
        (\<lambda>w c sender markets. Returns (map (\<lambda>m. code) markets, Suc w)),
      comptroller_getAccountLiquidity = (\<lambda>w c account. Returns snapshot),
      oracle_getUnderlyingPrice = (\<lambda>w oracle c. Returns price)\<rparr>"

definition project :: MyDefiProject where
  "project = constructor 0xD0 0xC0 0xFEED"

section \<open>The ledger and the validation rules of the specification\<close>

text \<open>
  The contract computes neither collateral values nor liquidity: it reads liquidity and
  shortfall from the comptroller, whose code is not in the repository, and leaves every
  balance to the market. The definitions of this section follow the specification
  (sections 3, 4.2, 4.3 and 4.4), with amounts, prices and values as rationals.
\<close>

text \<open>Modelled from the spec: the \<open>Asset\<close> of section 3 (the registry entry).\<close>

record Asset =
  symbol :: string
  decimals :: nat
  collateral_factor :: rat

text \<open>
  Modelled from the spec: the state the external market holds for one account and one
  asset, which is what \<open>getAccountSnapshot\<close> returns (section 4.2) together with the
  flag \<open>enterMarket\<close> and \<open>exitMarket\<close> toggle. The market's code is not in the
  repository.
\<close>

record MarketState =
  receiptShares :: rat
  exchangeRate :: rat
  borrowedAmount :: rat
  entered :: bool

type_synonym Market = "string \<Rightarrow> MarketState"

text \<open>
  Modelled from the spec: \<open>MarketClient.supply\<close> (section 4.2), missing from the
  repository with the rest of the market: it takes \<open>amount\<close> of underlying in and mints
  receipt shares at the current exchange rate, \<open>amount / exchangeRate\<close> of them. The
  specification gives no rounding rule, and the quotient is exact. An exchange rate is
  not zero; at the rate 0 the quotient of HOL is 0 and no share is minted.
\<close>

definition market_supply :: "Market \<Rightarrow> string \<Rightarrow> rat \<Rightarrow> Market" where
  "market_supply m s amount =
     m(s := (m s)\<lparr>receiptShares := receiptShares (m s) + amount / exchangeRate (m s)\<rparr>)"

text \<open>
  Modelled from the spec: the \<open>AccountPosition\<close> of section 3, with the collateral
  flag section 9 puts into it. The supplied amount is the receipt shares times the
  exchange rate.
\<close>

record AccountPosition =
  supplied_amount :: rat
  receipt_shares :: rat
  borrowed_amount :: rat
  isCollateral :: bool

text \<open>
  Modelled from the spec: the position \<open>refresh\<close> derives from what the market returns
  (section 3: the supplied amount equals the receipt shares times the current exchange
  rate).
\<close>

definition position_of :: "MarketState \<Rightarrow> AccountPosition" where
  "position_of s =
     \<lparr>supplied_amount = receiptShares s * exchangeRate s,
      receipt_shares = receiptShares s,
      borrowed_amount = borrowedAmount s,
      isCollateral = entered s\<rparr>"

text \<open>
  Modelled from the spec: \<open>PositionLedger.refresh\<close> (section 4.3), of which the
  repository has no code: one position per asset the account has entered as collateral
  or has an open borrow in.
\<close>

definition refresh :: "Market \<Rightarrow> Asset list \<Rightarrow> (Asset \<times> AccountPosition) list" where
  "refresh m assets =
     map (\<lambda>a. (a, position_of (m (symbol a))))
       (filter (\<lambda>a. entered (m (symbol a)) \<or> borrowedAmount (m (symbol a)) \<noteq> 0) assets)"

text \<open>Modelled from the spec: the \<open>AccountSnapshot\<close> of section 3.\<close>

record AccountSnapshot =
  total_collateral_value :: rat
  total_borrow_value :: rat
  liquidity :: rat
  shortfall :: rat

text \<open>
  Modelled from the spec: the pass of \<open>PositionLedger.snapshot\<close> over the positions
  (section 4.3), of which the repository has no code. For each position with a non-zero
  supplied or borrowed amount it accumulates the collateral value (supplied times price
  times collateral factor, for an asset entered as collateral) and the borrow value
  (borrowed times price).
\<close>

fun accumulate ::
  "(string \<Rightarrow> rat) \<Rightarrow> (Asset \<times> AccountPosition) list \<Rightarrow> rat \<times> rat \<Rightarrow> rat \<times> rat" where
  "accumulate price [] acc = acc"
| "accumulate price ((a, p) # ps) (c, b) =
     (if supplied_amount p \<noteq> 0 \<or> borrowed_amount p \<noteq> 0
      then accumulate price ps
             (if isCollateral p
              then c + supplied_amount p * price (symbol a) * collateral_factor a else c,
              b + borrowed_amount p * price (symbol a))
      else accumulate price ps (c, b))"

text \<open>
  Modelled from the spec: \<open>PositionLedger.snapshot\<close> (section 4.3), the computation the
  comptroller stands for in the contract: liquidity is \<open>max(collateral - borrow, 0)\<close>
  and shortfall \<open>max(borrow - collateral, 0)\<close>.
\<close>

definition snapshot ::
  "(string \<Rightarrow> rat) \<Rightarrow> (Asset \<times> AccountPosition) list \<Rightarrow> AccountSnapshot" where
  "snapshot price ledger =
     (let (collateral, borrow) = accumulate price ledger (0, 0)
      in \<lparr>total_collateral_value = collateral,
          total_borrow_value = borrow,
          liquidity = max (collateral - borrow) 0,
          shortfall = max (borrow - collateral) 0\<rparr>)"

text \<open>
  Modelled from the spec: the collateral value of a position, as the invariant of
  section 3 sums it: supplied times price, and nothing for an asset that is not entered
  as collateral.
\<close>

definition collateral_value :: "(string \<Rightarrow> rat) \<Rightarrow> Asset \<times> AccountPosition \<Rightarrow> rat" where
  "collateral_value price ap =
     (if isCollateral (snd ap) then supplied_amount (snd ap) * price (symbol (fst ap)) else 0)"

text \<open>
  Modelled from the spec: the borrow value of a position, as the invariant of section 3
  sums it: borrowed times price.
\<close>

definition borrow_value :: "(string \<Rightarrow> rat) \<Rightarrow> Asset \<times> AccountPosition \<Rightarrow> rat" where
  "borrow_value price ap = borrowed_amount (snd ap) * price (symbol (fst ap))"

text \<open>
  Modelled from the spec: the errors of local validation (section 7). The repository
  implements no local validation; the rules below are the reference the contract's
  \<open>borrow\<close>, \<open>redeem\<close> and \<open>repayBorrow\<close> are compared with.
\<close>

datatype ValidationError =
    InsufficientCollateral
  | AccountUnderwater
  | NoCollateral
  | BorrowExceedsLiquidity
  | MarketExitBlocked

text \<open>
  Modelled from the spec: rule 3 of section 4.4, the validation of a borrow, in the
  order of the specification; \<open>None\<close> is approval. The rule that the asset is supported
  by the market carries no error name in the specification and is left out.
\<close>

definition spec_validate_borrow ::
  "AccountSnapshot \<Rightarrow> rat \<Rightarrow> rat \<Rightarrow> ValidationError option" where
  "spec_validate_borrow snap price amount =
     (if shortfall snap \<noteq> 0 then Some AccountUnderwater
      else if liquidity snap = 0 then Some NoCollateral
      else if amount * price > liquidity snap then Some BorrowExceedsLiquidity
      else None)"

text \<open>
  Modelled from the spec: the simulation of rule 2 of section 4.4, which removes the
  withdrawn amount from the supplied amount of the asset.
\<close>

definition spec_withdraw_position ::
  "(Asset \<times> AccountPosition) list \<Rightarrow> string \<Rightarrow> rat \<Rightarrow> (Asset \<times> AccountPosition) list" where
  "spec_withdraw_position ledger s amount =
     map (\<lambda>(a, p). if symbol a = s
                    then (a, p\<lparr>supplied_amount := supplied_amount p - amount\<rparr>) else (a, p))
       ledger"

text \<open>
  Modelled from the spec: rule 2 of section 4.4, the validation of a withdrawal: the
  shortfall is recomputed on the simulated ledger, and the request fails with
  \<open>InsufficientCollateral\<close> if it is not zero. The bound of the amount by the supplied
  balance carries no error name in the specification and is left out.
\<close>

definition spec_validate_withdraw ::
  "(string \<Rightarrow> rat) \<Rightarrow> (Asset \<times> AccountPosition) list \<Rightarrow> string \<Rightarrow> rat \<Rightarrow>
     ValidationError option" where
  "spec_validate_withdraw price ledger s amount =
     (if shortfall (snapshot price (spec_withdraw_position ledger s amount)) \<noteq> 0
      then Some InsufficientCollateral else None)"


text \<open>
  The scenario of section 8: asset A with collateral factor 0.75 and price 1.00, of which
  the account has supplied 1000 and which it has entered; and an asset B, priced at
  1.00, of which it has borrowed \<open>owed\<close>.
\<close>

definition asset_A :: Asset where
  "asset_A = \<lparr>symbol = ''A'', decimals = 18, collateral_factor = 3 / 4\<rparr>"

definition asset_B :: Asset where
  "asset_B = \<lparr>symbol = ''B'', decimals = 6, collateral_factor = 1 / 2\<rparr>"

definition scenario :: "rat \<Rightarrow> Market" where
  "scenario owed =
     (\<lambda>s. if s = ''A''
          then \<lparr>receiptShares = 50000, exchangeRate = 1 / 50, borrowedAmount = 0, entered = True\<rparr>
          else \<lparr>receiptShares = 0, exchangeRate = 1 / 50, borrowedAmount = owed, entered = False\<rparr>)"

definition unit_price :: "string \<Rightarrow> rat" where
  "unit_price s = 1"

section \<open>What the contract's functions do\<close>

lemmas run_defs = extcall_def and_then_def require_def finish_def

text \<open>
  Every path of the four state-changing functions that take a request. A function stops
  at the first call whose address holds no code or that fails; when its calls return,
  \<open>supply\<close>, \<open>redeem\<close> and \<open>borrow\<close> test the code the market returned, and
  \<open>repayBorrow\<close> tests \<open>result\<close>.
\<close>

lemma supply_paths:
  "supply_fn X C w c amount =
     (case ctoken_underlying X w c of
        NoCode \<Rightarrow> (Inl NoContractCode, [])
      | Fails d \<Rightarrow> (Inl (CallFailed d), [Underlying c])
      | Returns u \<Rightarrow>
          (case erc20_approve X w u (this_address C) c amount of
             NoCode \<Rightarrow> (Inl NoContractCode, [Underlying c])
           | Fails d \<Rightarrow> (Inl (CallFailed d), [Underlying c, Approve u c amount])
           | Returns w1 \<Rightarrow>
               (case ctoken_mint X w1 c (this_address C) amount of
                  NoCode \<Rightarrow> (Inl NoContractCode, [Underlying c, Approve u c amount])
                | Fails d \<Rightarrow>
                    (Inl (CallFailed d), [Underlying c, Approve u c amount, Mint c amount])
                | Returns r \<Rightarrow>
                    (if fst r = 0 then Inr (snd r) else Inl (Revert mint_failed),
                     [Underlying c, Approve u c amount, Mint c amount]))))"
  by (simp add: supply_fn_def run_defs split: reply.splits prod.splits)

lemma redeem_paths:
  "redeem X C w c amount =
     (case ctoken_redeem X w c (this_address C) amount of
        NoCode \<Rightarrow> (Inl NoContractCode, [])
      | Fails d \<Rightarrow> (Inl (CallFailed d), [Redeem c amount])
      | Returns r \<Rightarrow>
          (if fst r = 0 then Inr (snd r) else Inl (Revert redeem_failed), [Redeem c amount]))"
  by (simp add: redeem_def run_defs split: reply.splits prod.splits)

lemma borrow_paths:
  "borrow X C w c amount =
     (case ctoken_underlying X w c of
        NoCode \<Rightarrow> (Inl NoContractCode, [])
      | Fails d \<Rightarrow> (Inl (CallFailed d), [Underlying c])
      | Returns u \<Rightarrow>
          (case ctoken_borrow X w c (this_address C) amount of
             NoCode \<Rightarrow> (Inl NoContractCode, [Underlying c])
           | Fails d \<Rightarrow> (Inl (CallFailed d), [Underlying c, Borrow c amount])
           | Returns r \<Rightarrow>
               (if fst r = 0 then Inr (snd r) else Inl (Revert borrow_failed),
                [Underlying c, Borrow c amount])))"
  by (simp add: borrow_def run_defs split: reply.splits prod.splits)

lemma repayBorrow_paths:
  "repayBorrow X C w c amount result =
     (case ctoken_underlying X w c of
        NoCode \<Rightarrow> (Inl NoContractCode, [])
      | Fails d \<Rightarrow> (Inl (CallFailed d), [Underlying c])
      | Returns u \<Rightarrow>
          (case erc20_approve X w u (this_address C) c amount of
             NoCode \<Rightarrow> (Inl NoContractCode, [Underlying c])
           | Fails d \<Rightarrow> (Inl (CallFailed d), [Underlying c, Approve u c amount])
           | Returns w1 \<Rightarrow>
               (case ctoken_repayBorrow X w1 c (this_address C) amount of
                  NoCode \<Rightarrow> (Inl NoContractCode, [Underlying c, Approve u c amount])
                | Fails d \<Rightarrow>
                    (Inl (CallFailed d), [Underlying c, Approve u c amount, RepayBorrow c amount])
                | Returns r \<Rightarrow>
                    (if result = 0 then Inr (snd r) else Inl (Revert repayBorrow_failed),
                     [Underlying c, Approve u c amount, RepayBorrow c amount]))))"
  by (simp add: repayBorrow_def run_defs split: reply.splits prod.splits)

lemma enterMarket_paths:
  "enterMarket X C w c result =
     (case comptroller_enterMarkets X w (comptroller C) (this_address C) [c] of
        NoCode \<Rightarrow> (Inl NoContractCode, [])
      | Fails d \<Rightarrow> (Inl (CallFailed d), [EnterMarkets (comptroller C) [c]])
      | Returns r \<Rightarrow>
          (if result = 0 then Inr (snd r) else Inl (Revert enterMarket_failed),
           [EnterMarkets (comptroller C) [c]]))"
  by (simp add: enterMarket_def run_defs Let_def split: reply.splits prod.splits)

text \<open>
  None of the four reads the comptroller or the oracle: on a chain whose comptroller
  and oracle answer in any other way, each does the same.
\<close>

lemma requests_read_no_snapshot:
  "supply_fn (X\<lparr>comptroller_getAccountLiquidity := L, oracle_getUnderlyingPrice := P\<rparr>)
     C w c amount = supply_fn X C w c amount"
  "redeem (X\<lparr>comptroller_getAccountLiquidity := L, oracle_getUnderlyingPrice := P\<rparr>)
     C w c amount = redeem X C w c amount"
  "borrow (X\<lparr>comptroller_getAccountLiquidity := L, oracle_getUnderlyingPrice := P\<rparr>)
     C w c amount = borrow X C w c amount"
  "repayBorrow (X\<lparr>comptroller_getAccountLiquidity := L, oracle_getUnderlyingPrice := P\<rparr>)
     C w c amount result = repayBorrow X C w c amount result"
  by (simp_all add: supply_fn_def redeem_def borrow_def repayBorrow_def)

text \<open>
  \<open>enterMarket\<close> and \<open>repayBorrow\<close> do not test the code returned to them: the same
  market returning any other code \<open>k\<close> gives the same outcome.
\<close>

lemma repayBorrow_ignores_code:
  "repayBorrow
     (X\<lparr>ctoken_repayBorrow :=
          \<lambda>w c s a. map_reply (\<lambda>r. (k, snd r)) (ctoken_repayBorrow X w c s a)\<rparr>)
     C w c amount result =
   repayBorrow X C w c amount result"
  by (simp add: repayBorrow_paths split: reply.splits)

lemma enterMarket_ignores_codes:
  "enterMarket
     (X\<lparr>comptroller_enterMarkets :=
          \<lambda>w c s ms. map_reply (\<lambda>r. (ks, snd r)) (comptroller_enterMarkets X w c s ms)\<rparr>)
     C w c result =
   enterMarket X C w c result"
  by (simp add: enterMarket_paths split: reply.splits)

text \<open>
  \<open>getMaxBorrow\<close> once the comptroller has returned the code 0, no shortfall and a
  positive liquidity, and the oracle a price: the price decides.
\<close>

lemma getMaxBorrow_solvent:
  assumes "comptroller_getAccountLiquidity X w (comptroller C) (this_address C) =
             Returns (0, liq, 0)"
    and "0 < liq"
    and "oracle_getUnderlyingPrice X w (priceOracle C) c = Returns price"
  shows "getMaxBorrow X C w c =
     (if price = 0 then Inl DivisionByZero else Inr (liq div price),
      [GetAccountLiquidity (comptroller C) (this_address C),
       GetUnderlyingPrice (priceOracle C) c])"
  using assms by (simp add: getMaxBorrow_def run_defs)

lemmas fixture_defs = fixed_chain_def project_def constructor_def

section \<open>The maximum borrow\<close>

text \<open>
  Claim C1, as stated, at the input where it fails: the comptroller answers with code 0,
  no shortfall and liquidity 750, the oracle quotes the price 0, and \<open>getMaxBorrow\<close>
  aborts instead of returning a quotient.
\<close>

theorem getMaxBorrow_quotient_counterexample:
  "comptroller_getAccountLiquidity (fixed_chain 0 (0, 750, 0) 0) 0
       (comptroller project) (this_address project) = Returns (0, 750, 0) \<and>
   (0 :: uint) < 750 \<and>
   oracle_getUnderlyingPrice (fixed_chain 0 (0, 750, 0) 0) 0 (priceOracle project) 0xCDA1 =
     Returns 0 \<and>
   fst (getMaxBorrow (fixed_chain 0 (0, 750, 0) 0) project 0 0xCDA1) = Inl DivisionByZero \<and>
   fst (getMaxBorrow (fixed_chain 0 (0, 750, 0) 0) project 0 0xCDA1) \<noteq> Inr (750 div 0)"
  by (simp add: getMaxBorrow_def run_defs fixture_defs)

text \<open>
  Claim C1, amended: in every state in which the comptroller's liquidity query returns
  result code 0, zero shortfall and strictly positive liquidity, and the oracle's unit
  price of the asset is not zero, \<open>getMaxBorrow\<close> returns the integer quotient of the
  liquidity by that price. Both numbers are read in the state of the call, by one query
  to the comptroller and one to the oracle that every call makes: nothing is cached.
\<close>

theorem getMaxBorrow_quotient:
  assumes "comptroller_getAccountLiquidity X w (comptroller C) (this_address C) =
             Returns (0, liq, 0)"
    and "0 < liq"
    and "oracle_getUnderlyingPrice X w (priceOracle C) c = Returns price"
    and "price \<noteq> 0"
  shows "getMaxBorrow X C w c =
           (Inr (liq div price),
            [GetAccountLiquidity (comptroller C) (this_address C),
             GetUnderlyingPrice (priceOracle C) c]) \<and>
         unat (liq div price) = unat liq div unat price"
  using assms by (simp add: getMaxBorrow_solvent unat_div)

theorem getMaxBorrow_quotient_witness:
  "comptroller_getAccountLiquidity (fixed_chain 0 (0, 750, 0) 2) 0
       (comptroller project) (this_address project) = Returns (0, 750, 0) \<and>
   (0 :: uint) < 750 \<and>
   oracle_getUnderlyingPrice (fixed_chain 0 (0, 750, 0) 2) 0 (priceOracle project) 0xCDA1 =
     Returns 2 \<and>
   (2 :: uint) \<noteq> 0 \<and>
   getMaxBorrow (fixed_chain 0 (0, 750, 0) 2) project 0 0xCDA1 =
     (Inr 375, [GetAccountLiquidity 0xC0 0xD0, GetUnderlyingPrice 0xFEED 0xCDA1])"
  using getMaxBorrow_quotient [of "fixed_chain 0 (0, 750, 0) 2" 0 project 750 "0xCDA1" 2]
  by (simp add: fixture_defs)

text \<open>
  Claim C10: when the comptroller's query succeeds with zero shortfall and positive
  liquidity and the oracle returns the price 0, the division is not guarded and the call
  aborts on it; \<open>getMaxBorrow\<close> returns a value only when the price is not zero.
\<close>

theorem getMaxBorrow_zero_price:
  assumes "comptroller_getAccountLiquidity X w (comptroller C) (this_address C) =
             Returns (0, liq, 0)"
    and "0 < liq"
    and "oracle_getUnderlyingPrice X w (priceOracle C) c = Returns price"
  shows "(price = 0 \<longrightarrow>
            getMaxBorrow X C w c =
              (Inl DivisionByZero,
               [GetAccountLiquidity (comptroller C) (this_address C),
                GetUnderlyingPrice (priceOracle C) c])) \<and>
         ((\<exists>v. fst (getMaxBorrow X C w c) = Inr v) \<longleftrightarrow> 0 < price)"
  using assms by (simp add: getMaxBorrow_solvent word_greater_zero_iff)

theorem getMaxBorrow_zero_price_witness:
  "comptroller_getAccountLiquidity (fixed_chain 0 (0, 1, 0) 0) 7
       (comptroller project) (this_address project) = Returns (0, 1, 0) \<and>
   (0 :: uint) < 1 \<and>
   oracle_getUnderlyingPrice (fixed_chain 0 (0, 1, 0) 0) 7 (priceOracle project) 0xCE7 =
     Returns 0 \<and>
   getMaxBorrow (fixed_chain 0 (0, 1, 0) 0) project 7 0xCE7 =
     (Inl DivisionByZero, [GetAccountLiquidity 0xC0 0xD0, GetUnderlyingPrice 0xFEED 0xCE7])"
  using getMaxBorrow_zero_price [of "fixed_chain 0 (0, 1, 0) 0" 7 project 1 "0xCE7" 0]
  by (simp add: fixture_defs)

section \<open>The result codes of the market\<close>

text \<open>
  Claim C2, at an input where the contract breaks it: the market answers \<open>repayBorrow\<close>
  with the code 3 and the comptroller answers \<open>enterMarkets\<close> with the code 3, and both
  functions of the contract complete, leaving the state the call left. The \<open>require\<close>
  of each tests the undeclared \<open>result\<close>, here 0, and not the code returned.
\<close>

theorem repayBorrow_enterMarket_code_unchecked:
  "ctoken_repayBorrow (fixed_chain 3 (0, 750, 0) 1) 0 0xCDA1 (this_address project) 100 =
     Returns (3, 1) \<and>
   repayBorrow (fixed_chain 3 (0, 750, 0) 1) project 0 0xCDA1 100 0 =
     (Inr 1, [Underlying 0xCDA1, Approve 0xDA1 0xCDA1 100, RepayBorrow 0xCDA1 100]) \<and>
   comptroller_enterMarkets (fixed_chain 3 (0, 750, 0) 1) 0
       (comptroller project) (this_address project) [0xCDA1] = Returns ([3], 1) \<and>
   enterMarket (fixed_chain 3 (0, 750, 0) 1) project 0 0xCDA1 0 =
     (Inr 1, [EnterMarkets 0xC0 [0xCDA1]])"
  by (simp add: repayBorrow_def enterMarket_def run_defs fixture_defs)

section \<open>Requests and their validation\<close>







text \<open>
  Claim C5, as stated, at an input where it fails: the account of the scenario owes 800
  against a collateral worth 750, a shortfall of 50, and asks to borrow 0. The rule of
  the specification rejects it with \<open>AccountUnderwater\<close>; the contract calls the market,
  and reverts with the market's failure when the market answers with the code 3, or
  completes when it answers with 0.
\<close>

theorem borrow_underwater_counterexample:
  "spec_validate_borrow (snapshot unit_price (refresh (scenario 800) [asset_A, asset_B])) 1 0 =
     Some AccountUnderwater \<and>
   comptroller_getAccountLiquidity (fixed_chain 3 (0, 0, 50) 1) 0
       (comptroller project) (this_address project) = Returns (0, 0, 50) \<and>
   borrow (fixed_chain 3 (0, 0, 50) 1) project 0 0xCDA1 0 =
     (Inl (Revert borrow_failed), [Underlying 0xCDA1, Borrow 0xCDA1 0]) \<and>
   borrow_failed \<noteq> account_underwater \<and>
   borrow (fixed_chain 0 (0, 0, 50) 1) project 0 0xCDA1 0 =
     (Inr 1, [Underlying 0xCDA1, Borrow 0xCDA1 0])"
  by (simp add: borrow_def run_defs fixture_defs spec_validate_borrow_def snapshot_def
      refresh_def scenario_def asset_A_def asset_B_def unit_price_def position_of_def
      borrow_failed_def account_underwater_def)

text \<open>
  Claim C5, amended: the query of the maximum borrow, \<open>getMaxBorrow\<close>, is what fails on
  such an account. When the comptroller's query returns result code 0 and a non-zero
  shortfall it reverts with \<open>account underwater\<close>, whatever the asset; when it returns
  zero shortfall and zero liquidity it reverts with \<open>account does not have collateral\<close>;
  in both cases the comptroller's query is the only call made. \<open>borrow\<close> makes no such
  check: on no path does it query the comptroller, and on a chain whose comptroller
  answers otherwise it does the same, for every amount.
\<close>

theorem getMaxBorrow_rejects_underwater:
  assumes "comptroller_getAccountLiquidity X w (comptroller C) (this_address C) =
             Returns (0, liq, short)"
  shows "(short \<noteq> 0 \<longrightarrow>
            getMaxBorrow X C w c =
              (Inl (Revert account_underwater),
               [GetAccountLiquidity (comptroller C) (this_address C)])) \<and>
         (short = 0 \<and> liq = 0 \<longrightarrow>
            getMaxBorrow X C w c =
              (Inl (Revert no_collateral),
               [GetAccountLiquidity (comptroller C) (this_address C)])) \<and>
         GetAccountLiquidity p q \<notin> set (snd (borrow X C w c amount)) \<and>
         borrow (X\<lparr>comptroller_getAccountLiquidity := L\<rparr>) C w c amount =
           borrow X C w c amount"
proof -
  have "GetAccountLiquidity p q \<notin> set (snd (borrow X C w c amount))"
    by (simp add: borrow_paths split: reply.splits)
  moreover have "borrow (X\<lparr>comptroller_getAccountLiquidity := L\<rparr>) C w c amount =
                 borrow X C w c amount"
    by (simp add: borrow_def)
  ultimately show ?thesis
    using assms by (simp add: getMaxBorrow_def run_defs)
qed

theorem getMaxBorrow_rejects_underwater_witness:
  "comptroller_getAccountLiquidity (fixed_chain 0 (0, 0, 50) 1) 0
       (comptroller project) (this_address project) = Returns (0, 0, 50) \<and>
   getMaxBorrow (fixed_chain 0 (0, 0, 50) 1) project 0 0xCDA1 =
     (Inl (Revert account_underwater), [GetAccountLiquidity 0xC0 0xD0]) \<and>
   comptroller_getAccountLiquidity (fixed_chain 0 (0, 0, 0) 1) 0
       (comptroller project) (this_address project) = Returns (0, 0, 0) \<and>
   getMaxBorrow (fixed_chain 0 (0, 0, 0) 1) project 0 0xCDA1 =
     (Inl (Revert no_collateral), [GetAccountLiquidity 0xC0 0xD0])"
  using getMaxBorrow_rejects_underwater
      [of "fixed_chain 0 (0, 0, 50) 1" 0 project 0 50 "0xCDA1"]
    getMaxBorrow_rejects_underwater
      [of "fixed_chain 0 (0, 0, 0) 1" 0 project 0 0 "0xCDA1"]
  by (simp add: fixture_defs)

text \<open>
  Claim C6, as stated, at an input where it fails: the account of the scenario has
  supplied 1000 of A (50000 receipt shares at the rate 1/50), worth 750 as collateral,
  and owes 600. Withdrawing 201 of A, that is 10050 shares, would leave a shortfall, and
  the rule of the specification rejects it with \<open>InsufficientCollateral\<close>. The contract
  passes the request to the market: it completes when the market answers with 0, and
  reverts with the market's failure when the market answers with the code 3.
\<close>

theorem redeem_collateral_counterexample:
  "spec_validate_withdraw unit_price (refresh (scenario 600) [asset_A, asset_B]) ''A'' 201 =
     Some InsufficientCollateral \<and>
   redeem (fixed_chain 0 (0, 150, 0) 1) project 0 0xCA 10050 = (Inr 1, [Redeem 0xCA 10050]) \<and>
   redeem (fixed_chain 3 (0, 150, 0) 1) project 0 0xCA 10050 =
     (Inl (Revert redeem_failed), [Redeem 0xCA 10050])"
  by (simp add: redeem_def run_defs fixture_defs spec_validate_withdraw_def
      spec_withdraw_position_def snapshot_def refresh_def scenario_def asset_A_def
      asset_B_def unit_price_def position_of_def)

text \<open>
  Claim C6, amended: for every redeem request in which the market's \<open>redeem\<close> returns,
  the contract has called it with the requested amount of receipt shares, and it succeeds
  when the result code returned is 0 and reverts with the message of \<open>redeem_failed\<close>
  when it is not; it succeeds in no other case. The market's \<open>redeem\<close> is the only call
  it ever makes: it compares the amount with no balance and simulates no shortfall, and
  on a chain whose comptroller and oracle answer otherwise it does the same.
\<close>

theorem redeem_follows_market_code:
  "(ctoken_redeem X w c (this_address C) amount = Returns (code, w1) \<longrightarrow>
      redeem X C w c amount =
        (if code = 0 then Inr w1 else Inl (Revert redeem_failed), [Redeem c amount])) \<and>
   (fst (redeem X C w c amount) = Inr w2 \<longrightarrow>
      ctoken_redeem X w c (this_address C) amount = Returns (0, w2)) \<and>
   (k \<in> set (snd (redeem X C w c amount)) \<longrightarrow> k = Redeem c amount) \<and>
   redeem (X\<lparr>comptroller_getAccountLiquidity := L, oracle_getUnderlyingPrice := P\<rparr>)
     C w c amount = redeem X C w c amount"
  by (auto simp add: redeem_paths split: reply.splits if_splits)

theorem redeem_follows_market_code_witness:
  "ctoken_redeem (fixed_chain 0 (0, 150, 0) 1) 0 0xCA (this_address project) 10050 =
     Returns (0, 1) \<and>
   redeem (fixed_chain 0 (0, 150, 0) 1) project 0 0xCA 10050 = (Inr 1, [Redeem 0xCA 10050]) \<and>
   Redeem 0xCA 10050 \<in> set (snd (redeem (fixed_chain 0 (0, 150, 0) 1) project 0 0xCA 10050)) \<and>
   ctoken_redeem (fixed_chain 3 (0, 150, 0) 1) 0 0xCA (this_address project) 10050 =
     Returns (3, 1) \<and>
   redeem (fixed_chain 3 (0, 150, 0) 1) project 0 0xCA 10050 =
     (Inl (Revert redeem_failed), [Redeem 0xCA 10050])"
  using redeem_follows_market_code
      [of "fixed_chain 0 (0, 150, 0) 1" 0 "0xCA" project 10050 0 1 1 "Redeem 0xCA 10050"]
    redeem_follows_market_code
      [of "fixed_chain 3 (0, 150, 0) 1" 0 "0xCA" project 10050 3 1 1 "Redeem 0xCA 10050"]
  by (simp add: fixture_defs)

text \<open>
  Claim C9, as stated, at an input where it fails: an account with no position has
  neither liquidity nor shortfall, and the rule of the specification rejects its borrow
  of 1 with \<open>NoCollateral\<close>. The contract calls the market's \<open>borrow\<close> all the same.
\<close>

theorem unvalidated_borrow_counterexample:
  "spec_validate_borrow (snapshot unit_price (refresh (scenario 0) [asset_B])) 1 1 =
     Some NoCollateral \<and>
   filter mutating (snd (borrow (fixed_chain 3 (0, 0, 0) 1) project 0 0xCDA1 1)) =
     [Borrow 0xCDA1 1]"
  by (simp add: borrow_def run_defs fixture_defs spec_validate_borrow_def snapshot_def
      refresh_def scenario_def asset_B_def unit_price_def position_of_def)

text \<open>
  Claim C9, amended: the contract validates no request locally. For every supply,
  redeem, borrow and repay request, either the contract has made the state-changing
  market call of the request, or the request stopped at an external call that failed or
  found no code: no \<open>require\<close> of the contract refuses a request, and no request
  succeeds, before its market call is made. None of the four reads the comptroller or
  the oracle: on a chain on which they answer otherwise, each does the same.
\<close>

theorem every_request_reaches_market:
  "(Mint c amount \<in> set (snd (supply_fn X C w c amount)) \<or>
    fst (supply_fn X C w c amount) = Inl NoContractCode \<or>
    (\<exists>d. fst (supply_fn X C w c amount) = Inl (CallFailed d))) \<and>
   (Redeem c amount \<in> set (snd (redeem X C w c amount)) \<or>
    fst (redeem X C w c amount) = Inl NoContractCode \<or>
    (\<exists>d. fst (redeem X C w c amount) = Inl (CallFailed d))) \<and>
   (Borrow c amount \<in> set (snd (borrow X C w c amount)) \<or>
    fst (borrow X C w c amount) = Inl NoContractCode \<or>
    (\<exists>d. fst (borrow X C w c amount) = Inl (CallFailed d))) \<and>
   (RepayBorrow c amount \<in> set (snd (repayBorrow X C w c amount result)) \<or>
    fst (repayBorrow X C w c amount result) = Inl NoContractCode \<or>
    (\<exists>d. fst (repayBorrow X C w c amount result) = Inl (CallFailed d))) \<and>
   supply_fn (X\<lparr>comptroller_getAccountLiquidity := L, oracle_getUnderlyingPrice := P\<rparr>)
     C w c amount = supply_fn X C w c amount \<and>
   redeem (X\<lparr>comptroller_getAccountLiquidity := L, oracle_getUnderlyingPrice := P\<rparr>)
     C w c amount = redeem X C w c amount \<and>
   borrow (X\<lparr>comptroller_getAccountLiquidity := L, oracle_getUnderlyingPrice := P\<rparr>)
     C w c amount = borrow X C w c amount \<and>
   repayBorrow (X\<lparr>comptroller_getAccountLiquidity := L, oracle_getUnderlyingPrice := P\<rparr>)
     C w c amount result = repayBorrow X C w c amount result"
proof -
  have "Mint c amount \<in> set (snd (supply_fn X C w c amount)) \<or>
        fst (supply_fn X C w c amount) = Inl NoContractCode \<or>
        (\<exists>d. fst (supply_fn X C w c amount) = Inl (CallFailed d))"
    by (simp add: supply_paths split: reply.splits)
  moreover have "Redeem c amount \<in> set (snd (redeem X C w c amount)) \<or>
        fst (redeem X C w c amount) = Inl NoContractCode \<or>
        (\<exists>d. fst (redeem X C w c amount) = Inl (CallFailed d))"
    by (simp add: redeem_paths split: reply.splits)
  moreover have "Borrow c amount \<in> set (snd (borrow X C w c amount)) \<or>
        fst (borrow X C w c amount) = Inl NoContractCode \<or>
        (\<exists>d. fst (borrow X C w c amount) = Inl (CallFailed d))"
    by (simp add: borrow_paths split: reply.splits)
  moreover have "RepayBorrow c amount \<in> set (snd (repayBorrow X C w c amount result)) \<or>
        fst (repayBorrow X C w c amount result) = Inl NoContractCode \<or>
        (\<exists>d. fst (repayBorrow X C w c amount result) = Inl (CallFailed d))"
    by (simp add: repayBorrow_paths split: reply.splits)
  ultimately show ?thesis
    by (simp add: requests_read_no_snapshot)
qed

theorem every_request_reaches_market_witness:
  "fst (supply_fn (fixed_chain 3 (0, 0, 50) 1) project 0 0xCDA1 0) = Inl (Revert mint_failed) \<and>
   Mint 0xCDA1 0 \<in> set (snd (supply_fn (fixed_chain 3 (0, 0, 50) 1) project 0 0xCDA1 0)) \<and>
   fst (redeem (fixed_chain 3 (0, 0, 50) 1) project 0 0xCDA1 0) = Inl (Revert redeem_failed) \<and>
   Redeem 0xCDA1 0 \<in> set (snd (redeem (fixed_chain 3 (0, 0, 50) 1) project 0 0xCDA1 0)) \<and>
   fst (borrow (fixed_chain 3 (0, 0, 50) 1) project 0 0xCDA1 0) = Inl (Revert borrow_failed) \<and>
   Borrow 0xCDA1 0 \<in> set (snd (borrow (fixed_chain 3 (0, 0, 50) 1) project 0 0xCDA1 0)) \<and>
   fst (repayBorrow (fixed_chain 3 (0, 0, 50) 1) project 0 0xCDA1 0 1) =
     Inl (Revert repayBorrow_failed) \<and>
   RepayBorrow 0xCDA1 0 \<in>
     set (snd (repayBorrow (fixed_chain 3 (0, 0, 50) 1) project 0 0xCDA1 0 1))"
  using every_request_reaches_market [of "0xCDA1" 0 "fixed_chain 3 (0, 0, 50) 1" project 0 1]
  by (simp add: supply_paths redeem_paths borrow_paths repayBorrow_paths fixture_defs)

section \<open>The account snapshot of the specification\<close>

text \<open>The accumulator of \<open>snapshot\<close> ends with the two sums added to what it started with.\<close>

lemma accumulate_sums:
  "accumulate price ledger (c, b) =
     (c + (\<Sum>ap\<leftarrow>ledger. collateral_value price ap * collateral_factor (fst ap)),
      b + (\<Sum>ap\<leftarrow>ledger. borrow_value price ap))"
proof (induction ledger arbitrary: c b)
  case Nil
  then show ?case by simp
next
  case (Cons x ledger)
  obtain a p where x: "x = (a, p)" by (cases x)
  show ?case
    unfolding x by (simp add: Cons.IH collateral_value_def borrow_value_def)
qed

lemmas scenario_defs =
  snapshot_def refresh_def scenario_def asset_A_def asset_B_def unit_price_def
  position_of_def market_supply_def

text \<open>
  Claim C7: in every account snapshot, liquidity and shortfall are both non-negative, at
  most one of them is non-zero (positive liquidity implies zero shortfall, and positive
  shortfall zero liquidity), and liquidity minus shortfall is the sum of the collateral
  values times their collateral factors minus the sum of the borrow values.
\<close>

theorem snapshot_invariant:
  "0 \<le> liquidity (snapshot price ledger) \<and>
   0 \<le> shortfall (snapshot price ledger) \<and>
   (0 < liquidity (snapshot price ledger) \<longrightarrow> shortfall (snapshot price ledger) = 0) \<and>
   (0 < shortfall (snapshot price ledger) \<longrightarrow> liquidity (snapshot price ledger) = 0) \<and>
   liquidity (snapshot price ledger) - shortfall (snapshot price ledger) =
     (\<Sum>ap\<leftarrow>ledger. collateral_value price ap * collateral_factor (fst ap)) -
     (\<Sum>ap\<leftarrow>ledger. borrow_value price ap)"
  by (simp add: snapshot_def accumulate_sums max_def)

theorem snapshot_invariant_witness:
  "0 < liquidity (snapshot unit_price (refresh (scenario 600) [asset_A, asset_B])) \<and>
   shortfall (snapshot unit_price (refresh (scenario 600) [asset_A, asset_B])) = 0 \<and>
   0 < shortfall (snapshot unit_price (refresh (scenario 800) [asset_A, asset_B])) \<and>
   liquidity (snapshot unit_price (refresh (scenario 800) [asset_A, asset_B])) = 0"
proof -
  have l: "0 < liquidity (snapshot unit_price (refresh (scenario 600) [asset_A, asset_B]))"
    by (simp add: scenario_defs)
  have s: "0 < shortfall (snapshot unit_price (refresh (scenario 800) [asset_A, asset_B]))"
    by (simp add: scenario_defs)
  show ?thesis
    using l s
      snapshot_invariant [of unit_price "refresh (scenario 600) [asset_A, asset_B]"]
      snapshot_invariant [of unit_price "refresh (scenario 800) [asset_A, asset_B]"]
    by blast
qed

section \<open>Supplying\<close>

text \<open>
  A supply changes the receipt shares of one asset and nothing else: the positions the
  ledger holds after it are those of the same assets, with the same borrowed amounts and
  collateral flags, and no supplied amount is smaller.
\<close>

lemma position_after_supply:
  "borrowed_amount (position_of (market_supply m s amount t)) =
     borrowed_amount (position_of (m t)) \<and>
   isCollateral (position_of (market_supply m s amount t)) = isCollateral (position_of (m t)) \<and>
   (0 \<le> amount \<longrightarrow>
      supplied_amount (position_of (m t)) \<le>
      supplied_amount (position_of (market_supply m s amount t)))"
  by (simp add: position_of_def market_supply_def distrib_right)

lemma refresh_filter_supply:
  "filter (\<lambda>a. entered (market_supply m s amount (symbol a)) \<or>
               borrowedAmount (market_supply m s amount (symbol a)) \<noteq> 0) assets =
   filter (\<lambda>a. entered (m (symbol a)) \<or> borrowedAmount (m (symbol a)) \<noteq> 0) assets"
  by (rule filter_cong) (simp_all add: market_supply_def)

lemma borrow_sum_supply:
  "(\<Sum>ap\<leftarrow>refresh (market_supply m s amount) assets. borrow_value price ap) =
   (\<Sum>ap\<leftarrow>refresh m assets. borrow_value price ap)"
  unfolding refresh_def refresh_filter_supply
  by (simp add: o_def borrow_value_def position_after_supply)

lemma collateral_sum_supply:
  assumes "\<forall>a\<in>set assets. 0 \<le> collateral_factor a"
    and "\<forall>t. 0 \<le> price t"
    and "0 \<le> amount"
  shows "(\<Sum>ap\<leftarrow>refresh m assets. collateral_value price ap * collateral_factor (fst ap)) \<le>
         (\<Sum>ap\<leftarrow>refresh (market_supply m s amount) assets.
             collateral_value price ap * collateral_factor (fst ap))"
  unfolding refresh_def refresh_filter_supply map_map o_def
proof (rule sum_list_mono)
  fix a
  assume "a \<in> set (filter (\<lambda>a. entered (m (symbol a)) \<or> borrowedAmount (m (symbol a)) \<noteq> 0)
                      assets)"
  then have cf: "0 \<le> collateral_factor a"
    using assms(1) by simp
  have p: "0 \<le> price (symbol a)"
    using assms(2) by simp
  have "supplied_amount (position_of (m (symbol a))) \<le>
        supplied_amount (position_of (market_supply m s amount (symbol a)))"
    using assms(3) position_after_supply by blast
  then have "collateral_value price (a, position_of (m (symbol a))) \<le>
             collateral_value price (a, position_of (market_supply m s amount (symbol a)))"
    using p by (simp add: collateral_value_def position_after_supply mult_right_mono)
  then show "collateral_value price (a, position_of (m (symbol a))) *
               collateral_factor (fst (a, position_of (m (symbol a)))) \<le>
             collateral_value price (a, position_of (market_supply m s amount (symbol a))) *
               collateral_factor (fst (a, position_of (market_supply m s amount (symbol a))))"
    using cf by (simp add: mult_right_mono)
qed

text \<open>
  Claim C8: from every state of the market, with non-negative prices and collateral
  factors in [0, 1), supplying a positive amount of a registered asset does not decrease
  the liquidity of the account's snapshot and does not increase its shortfall, so it
  creates none. The contract's \<open>supply\<close> makes no liquidity check: on no path does it
  query the comptroller, on a chain whose comptroller and oracle answer otherwise it does
  the same, and when its calls return they are \<open>underlying\<close>, \<open>approve\<close> and \<open>mint\<close>.
\<close>

theorem supply_never_hurts:
  assumes "\<forall>a\<in>set assets. 0 \<le> collateral_factor a \<and> collateral_factor a < 1"
    and "\<forall>t. 0 \<le> price t"
    and "0 < amount"
    and "a \<in> set assets"
  shows "liquidity (snapshot price (refresh m assets)) \<le>
           liquidity (snapshot price (refresh (market_supply m (symbol a) amount) assets)) \<and>
         shortfall (snapshot price (refresh (market_supply m (symbol a) amount) assets)) \<le>
           shortfall (snapshot price (refresh m assets)) \<and>
         (shortfall (snapshot price (refresh m assets)) = 0 \<longrightarrow>
            shortfall (snapshot price (refresh (market_supply m (symbol a) amount) assets)) = 0) \<and>
         GetAccountLiquidity p q \<notin> set (snd (supply_fn X C w c underlyingAmount)) \<and>
         supply_fn (X\<lparr>comptroller_getAccountLiquidity := L, oracle_getUnderlyingPrice := P\<rparr>)
           C w c underlyingAmount = supply_fn X C w c underlyingAmount \<and>
         (ctoken_underlying X w c = Returns u \<and>
          erc20_approve X w u (this_address C) c underlyingAmount = Returns w1 \<and>
          ctoken_mint X w1 c (this_address C) underlyingAmount = Returns r \<longrightarrow>
            snd (supply_fn X C w c underlyingAmount) =
              [Underlying c, Approve u c underlyingAmount, Mint c underlyingAmount])"
proof -
  have no_query: "GetAccountLiquidity p q \<notin> set (snd (supply_fn X C w c underlyingAmount))"
    by (simp add: supply_paths split: reply.splits)
  have calls: "ctoken_underlying X w c = Returns u \<and>
      erc20_approve X w u (this_address C) c underlyingAmount = Returns w1 \<and>
      ctoken_mint X w1 c (this_address C) underlyingAmount = Returns r \<longrightarrow>
        snd (supply_fn X C w c underlyingAmount) =
          [Underlying c, Approve u c underlyingAmount, Mint c underlyingAmount]"
    by (simp add: supply_paths)
  have "(\<Sum>ap\<leftarrow>refresh m assets. collateral_value price ap * collateral_factor (fst ap)) \<le>
        (\<Sum>ap\<leftarrow>refresh (market_supply m (symbol a) amount) assets.
            collateral_value price ap * collateral_factor (fst ap))"
    using assms by (intro collateral_sum_supply) auto
  then have "liquidity (snapshot price (refresh m assets)) \<le>
               liquidity (snapshot price (refresh (market_supply m (symbol a) amount) assets)) \<and>
             shortfall (snapshot price (refresh (market_supply m (symbol a) amount) assets)) \<le>
               shortfall (snapshot price (refresh m assets)) \<and>
             (shortfall (snapshot price (refresh m assets)) = 0 \<longrightarrow>
                shortfall (snapshot price (refresh (market_supply m (symbol a) amount) assets)) = 0)"
    by (simp add: snapshot_def accumulate_sums borrow_sum_supply max_def)
  then show ?thesis
    using no_query calls by (simp add: requests_read_no_snapshot)
qed

theorem supply_never_hurts_witness:
  "liquidity (snapshot unit_price (refresh (scenario 600) [asset_A, asset_B])) = 150 \<and>
   liquidity (snapshot unit_price
      (refresh (market_supply (scenario 600) ''A'' 100) [asset_A, asset_B])) = 225 \<and>
   shortfall (snapshot unit_price (refresh (scenario 600) [asset_A, asset_B])) = 0 \<and>
   shortfall (snapshot unit_price
      (refresh (market_supply (scenario 600) ''A'' 100) [asset_A, asset_B])) = 0 \<and>
   liquidity (snapshot unit_price (refresh (scenario 600) [asset_A, asset_B])) \<le>
   liquidity (snapshot unit_price
      (refresh (market_supply (scenario 600) (symbol asset_A) 100) [asset_A, asset_B])) \<and>
   snd (supply_fn (fixed_chain 0 (0, 150, 0) 1) project 0 0xCA 100) =
     [Underlying 0xCA, Approve 0xDA1 0xCA 100, Mint 0xCA 100]"
proof -
  have f: "\<forall>a\<in>set [asset_A, asset_B]. 0 \<le> collateral_factor a \<and> collateral_factor a < 1"
    by (simp add: asset_A_def asset_B_def)
  have p: "\<forall>t. 0 \<le> unit_price t"
    by (simp add: unit_price_def)
  have r: "asset_A \<in> set [asset_A, asset_B]"
    by simp
  have "liquidity (snapshot unit_price (refresh (scenario 600) [asset_A, asset_B])) \<le>
        liquidity (snapshot unit_price
          (refresh (market_supply (scenario 600) (symbol asset_A) 100) [asset_A, asset_B])) \<and>
        snd (supply_fn (fixed_chain 0 (0, 150, 0) 1) project 0 0xCA 100) =
          [Underlying 0xCA, Approve 0xDA1 0xCA 100, Mint 0xCA 100]"
    using supply_never_hurts [OF f p _ r, where amount = 100 and m = "scenario 600"
        and X = "fixed_chain 0 (0, 150, 0) 1" and C = project and w = 0 and c = "0xCA"
        and underlyingAmount = 100 and u = "0xDA1" and ?w1.0 = 0 and r = "(0, 1)"]
    by (simp add: fixture_defs)
  then show ?thesis
    by (simp add: scenario_defs)
qed

end
